theory Spec2Isabelle
  imports Complex_Main
begin

section \<open>Python values used by the market analyzer\<close>

subsection \<open>Floats\<close>

text \<open>
  A Python float (an IEEE double) is either finite, an infinity or NaN.  Finite values are
  idealised as real numbers: the scalar operations below are exact on them, so rounding
  error is not part of this model.  The special values are kept, because \<^verbatim>\<open>float()\<close>
  produces them from the strings \<^verbatim>\<open>"nan"\<close> and \<^verbatim>\<open>"inf"\<close>.  The conversions from JSON and the
  sums that the reductions of a column take respect the range of a double: a result
  beyond it is an infinity.
\<close>

datatype pyfloat = Fin real | PInf | NInf | NaN

fun is_finite :: "pyfloat \<Rightarrow> bool" where
  "is_finite (Fin r) = True"
| "is_finite _ = False"

fun fneg :: "pyfloat \<Rightarrow> pyfloat" where
  "fneg (Fin a) = Fin (- a)"
| "fneg PInf = NInf"
| "fneg NInf = PInf"
| "fneg NaN = NaN"

fun fadd :: "pyfloat \<Rightarrow> pyfloat \<Rightarrow> pyfloat" where
  "fadd (Fin a) (Fin b) = Fin (a + b)"
| "fadd NaN y = NaN"
| "fadd x NaN = NaN"
| "fadd PInf NInf = NaN"
| "fadd NInf PInf = NaN"
| "fadd PInf y = PInf"
| "fadd x PInf = PInf"
| "fadd NInf y = NInf"
| "fadd x NInf = NInf"

definition fsub :: "pyfloat \<Rightarrow> pyfloat \<Rightarrow> pyfloat" where
  "fsub x y = fadd x (fneg y)"

text \<open>The sign of a non-NaN float: \<open>-1\<close>, \<open>0\<close> or \<open>1\<close>.\<close>

fun fsign :: "pyfloat \<Rightarrow> int" where
  "fsign (Fin a) = (if a < 0 then - 1 else if a = 0 then 0 else 1)"
| "fsign PInf = 1"
| "fsign NInf = - 1"
| "fsign NaN = 0"

definition signed_inf :: "int \<Rightarrow> pyfloat" where
  "signed_inf s = (if s < 0 then NInf else if s = 0 then NaN else PInf)"

fun fmul :: "pyfloat \<Rightarrow> pyfloat \<Rightarrow> pyfloat" where
  "fmul (Fin a) (Fin b) = Fin (a * b)"
| "fmul NaN y = NaN"
| "fmul x NaN = NaN"
| "fmul x y = signed_inf (fsign x * fsign y)"

text \<open>
  Division as numpy's \<^verbatim>\<open>float64\<close> does it: a zero divisor gives an infinity or NaN rather
  than an exception.  Every division of the analyzer has a divisor that is not zero.
\<close>

fun fdiv :: "pyfloat \<Rightarrow> pyfloat \<Rightarrow> pyfloat" where
  "fdiv (Fin a) (Fin b) = (if b = 0 then signed_inf (fsign (Fin a)) else Fin (a / b))"
| "fdiv NaN y = NaN"
| "fdiv x NaN = NaN"
| "fdiv (Fin a) y = Fin 0"
| "fdiv x (Fin b) = signed_inf (fsign x * (if b < 0 then - 1 else 1))"
| "fdiv x y = NaN"

text \<open>Comparisons: every comparison with NaN is false.\<close>

fun fle :: "pyfloat \<Rightarrow> pyfloat \<Rightarrow> bool" where
  "fle NaN y = False"
| "fle x NaN = False"
| "fle (Fin a) (Fin b) = (a \<le> b)"
| "fle NInf y = True"
| "fle x PInf = True"
| "fle x y = False"

definition flt :: "pyfloat \<Rightarrow> pyfloat \<Rightarrow> bool" where
  "flt x y = (fle x y \<and> x \<noteq> y)"

definition fgt :: "pyfloat \<Rightarrow> pyfloat \<Rightarrow> bool" where
  "fgt x y = flt y x"

text \<open>
  \<^verbatim>\<open>round(x, 2)\<close>: to the nearest multiple of a hundredth, a tie going to the even
  neighbour; the special values are returned unchanged.
\<close>

definition round_half_even :: "real \<Rightarrow> int" where
  "round_half_even x =
     (let f = \<lfloor>x\<rfloor>; d = x - of_int f
      in if d < 1 / 2 then f else if 1 / 2 < d then f + 1 else if even f then f else f + 1)"

fun fround2 :: "pyfloat \<Rightarrow> pyfloat" where
  "fround2 (Fin a) = Fin (of_int (round_half_even (a * 100)) / 100)"
| "fround2 x = x"

subsection \<open>Characters and strings\<close>

definition is_space :: "char \<Rightarrow> bool" where
  "is_space c = (c \<in> set [CHR 0x09, CHR 0x0A, CHR 0x0B, CHR 0x0C, CHR 0x0D,
                            CHR 0x1C, CHR 0x1D, CHR 0x1E, CHR 0x1F, CHR 0x20])"

definition is_digit :: "char \<Rightarrow> bool" where
  "is_digit c = (c \<in> set ''0123456789'')"

definition digit_val :: "char \<Rightarrow> nat" where
  "digit_val c = of_char c - 48"

definition is_upper :: "char \<Rightarrow> bool" where
  "is_upper c = (c \<in> set ''ABCDEFGHIJKLMNOPQRSTUVWXYZ'')"

text \<open>\<^verbatim>\<open>str.lower()\<close>, on ASCII letters; every other character is left as it is.\<close>

definition lower_char :: "char \<Rightarrow> char" where
  "lower_char c = (if is_upper c then char_of (of_char c + (32::nat)) else c)"

definition lower :: "string \<Rightarrow> string" where
  "lower s = map lower_char s"

text \<open>\<^verbatim>\<open>str.split()\<close> without arguments: the maximal runs of characters that are not white space.\<close>

fun split_from :: "string \<Rightarrow> string \<Rightarrow> string list" where
  "split_from w [] = (if w = [] then [] else [w])"
| "split_from w (c # cs) =
     (if is_space c then (if w = [] then split_from [] cs else w # split_from [] cs)
      else split_from (w @ [c]) cs)"

definition split :: "string \<Rightarrow> string list" where
  "split s = split_from [] s"

text \<open>\<^verbatim>\<open>sep.join(words)\<close>.\<close>

fun join :: "string \<Rightarrow> string list \<Rightarrow> string" where
  "join sep [] = []"
| "join sep [w] = w"
| "join sep (w # ws) = w @ sep @ join sep ws"

definition strip :: "string \<Rightarrow> string" where
  "strip s = rev (dropWhile is_space (rev (dropWhile is_space s)))"

subsection \<open>Exceptions and JSON values\<close>

datatype py_error = KeyError | TypeError | ValueError | OverflowError | ConnectionError

text \<open>
  What \<^verbatim>\<open>response.json()\<close> yields.  An object is the list of its members; looking a key up
  takes its first binding.
\<close>

datatype json =
    JNull
  | JBool bool
  | JInt int
  | JFloat pyfloat
  | JStr string
  | JList "json list"
  | JDict "(string \<times> json) list"

text \<open>\<^verbatim>\<open>x[key]\<close> with a string key: only a dict can be subscripted by a string.\<close>

fun getitem :: "json \<Rightarrow> string \<Rightarrow> py_error + json" where
  "getitem (JDict kvs) k = (case map_of kvs k of None \<Rightarrow> Inl KeyError | Some v \<Rightarrow> Inr v)"
| "getitem x k = Inl TypeError"

text \<open>\<^verbatim>\<open>d.get(key, default)\<close> on a dict.\<close>

definition dict_get :: "(string \<times> json) list \<Rightarrow> string \<Rightarrow> json \<Rightarrow> json" where
  "dict_get kvs k d = (case map_of kvs k of None \<Rightarrow> d | Some v \<Rightarrow> v)"

text \<open>Truthiness, as \<^verbatim>\<open>not data\<close> tests it.\<close>

fun truthy :: "json \<Rightarrow> bool" where
  "truthy JNull = False"
| "truthy (JBool b) = b"
| "truthy (JInt i) = (i \<noteq> 0)"
| "truthy (JFloat f) = (f \<noteq> Fin 0)"
| "truthy (JStr s) = (s \<noteq> [])"
| "truthy (JList xs) = (xs \<noteq> [])"
| "truthy (JDict kvs) = (kvs \<noteq> [])"

text \<open>
  \<^verbatim>\<open>for item in data\<close>: a list yields its elements, a string its characters, a dict its
  keys; anything else is not iterable.
\<close>

fun iterate :: "json \<Rightarrow> py_error + json list" where
  "iterate (JList xs) = Inr xs"
| "iterate (JStr s) = Inr (map (\<lambda>c. JStr [c]) s)"
| "iterate (JDict kvs) = Inr (map (\<lambda>kv. JStr (fst kv)) kvs)"
| "iterate x = Inl TypeError"

subsection \<open>The builtin \<^verbatim>\<open>float()\<close>\<close>

text \<open>
  The least magnitude that no longer rounds to a finite double: half an ulp above the
  largest double \<open>2^1024 - 2^971\<close>.
\<close>

definition float_overflow :: real where
  "float_overflow = 2 ^ 1024 - 2 ^ 970"

definition to_double :: "real \<Rightarrow> pyfloat" where
  "to_double r = (if float_overflow \<le> r then PInf else if r \<le> - float_overflow then NInf else Fin r)"

text \<open>
  Underscores in a numeric string: allowed only between two digits.  The function returns
  the string without them, as CPython does before it parses the number.
\<close>

fun strip_underscores :: "char \<Rightarrow> string \<Rightarrow> string option" where
  "strip_underscores prev [] = (if prev = CHR ''_'' then None else Some [])"
| "strip_underscores prev (c # cs) =
     (if c = CHR ''_'' then (if is_digit prev then strip_underscores c cs else None)
      else if prev = CHR ''_'' \<and> \<not> is_digit c then None
      else map_option ((#) c) (strip_underscores c cs))"

definition nat_of_digits :: "string \<Rightarrow> nat" where
  "nat_of_digits ds = foldl (\<lambda>n c. n * 10 + digit_val c) 0 ds"

definition take_sign :: "string \<Rightarrow> bool \<times> string" where
  "take_sign s =
     (case s of
        [] \<Rightarrow> (False, [])
      | c # cs \<Rightarrow> if c = CHR ''-'' then (True, cs) else if c = CHR ''+'' then (False, cs) else (False, s))"

text \<open>
  An unsigned decimal: digits with an optional fraction (at least one digit in all), then
  an optional exponent, and nothing after it.
\<close>

definition parse_decimal :: "string \<Rightarrow> real option" where
  "parse_decimal s =
     (let ip = takeWhile is_digit s;
          r1 = dropWhile is_digit s;
          fp = (case r1 of [] \<Rightarrow> [] | c # r \<Rightarrow> if c = CHR ''.'' then takeWhile is_digit r else []);
          r2 = (case r1 of [] \<Rightarrow> [] | c # r \<Rightarrow> if c = CHR ''.'' then dropWhile is_digit r else r1);
          mant = real (nat_of_digits (ip @ fp)) / 10 ^ length fp
      in if ip = [] \<and> fp = [] then None
         else (case r2 of
                 [] \<Rightarrow> Some mant
               | e # r3 \<Rightarrow>
                   if e = CHR ''e'' \<or> e = CHR ''E'' then
                     (let (neg, r4) = take_sign r3
                      in if r4 = [] \<or> \<not> list_all is_digit r4 then None
                         else Some (if neg then mant / 10 ^ nat_of_digits r4
                                    else mant * 10 ^ nat_of_digits r4))
                   else None))"

definition float_of_string :: "string \<Rightarrow> pyfloat option" where
  "float_of_string s =
     (case strip_underscores (CHR 0x00) (strip s) of
        None \<Rightarrow> None
      | Some t \<Rightarrow>
          (let (neg, u) = take_sign t; w = lower u
           in if w = ''inf'' \<or> w = ''infinity'' then Some (if neg then NInf else PInf)
              else if w = ''nan'' then Some NaN
              else (case parse_decimal u of
                      None \<Rightarrow> None
                    | Some r \<Rightarrow> Some (to_double (if neg then - r else r)))))"

text \<open>
  \<^verbatim>\<open>float(x)\<close> on a JSON value: \<^verbatim>\<open>TypeError\<close> for null, lists and dicts, \<^verbatim>\<open>ValueError\<close> for
  a string that is not a number, \<^verbatim>\<open>OverflowError\<close> for an integer beyond the range of a
  double.
\<close>

fun float :: "json \<Rightarrow> py_error + pyfloat" where
  "float JNull = Inl TypeError"
| "float (JBool b) = Inr (Fin (if b then 1 else 0))"
| "float (JInt i) = (if float_overflow \<le> \<bar>real_of_int i\<bar> then Inl OverflowError else Inr (Fin (real_of_int i)))"
| "float (JFloat f) = Inr f"
| "float (JStr s) = (case float_of_string s of None \<Rightarrow> Inl ValueError | Some f \<Rightarrow> Inr f)"
| "float (JList xs) = Inl TypeError"
| "float (JDict kvs) = Inl TypeError"

section \<open>The pandas operations the analyzer calls\<close>

text \<open>
  A column of a DataFrame is a list.  The reductions of the price column skip NaN
  (\<^verbatim>\<open>skipna=True\<close>), and a reduction over no value at all is NaN.  A sum of two doubles
  that leaves the range of a double is an infinity.
\<close>

fun in_range :: "pyfloat \<Rightarrow> pyfloat" where
  "in_range (Fin r) = to_double r"
| "in_range x = x"

definition add_double :: "pyfloat \<Rightarrow> pyfloat \<Rightarrow> pyfloat" where
  "add_double a b = in_range (fadd a b)"

definition dropna :: "pyfloat list \<Rightarrow> pyfloat list" where
  "dropna xs = filter (\<lambda>x. x \<noteq> NaN) xs"

definition fmin :: "pyfloat \<Rightarrow> pyfloat \<Rightarrow> pyfloat" where
  "fmin a b = (if fle a b then a else b)"

definition fmax :: "pyfloat \<Rightarrow> pyfloat \<Rightarrow> pyfloat" where
  "fmax a b = (if fle a b then b else a)"

definition series_min :: "pyfloat list \<Rightarrow> pyfloat" where
  "series_min xs = (case dropna xs of [] \<Rightarrow> NaN | y # ys \<Rightarrow> foldl fmin y ys)"

definition series_max :: "pyfloat list \<Rightarrow> pyfloat" where
  "series_max xs = (case dropna xs of [] \<Rightarrow> NaN | y # ys \<Rightarrow> foldl fmax y ys)"

definition series_mean :: "pyfloat list \<Rightarrow> pyfloat" where
  "series_mean xs =
     (case dropna xs of
        [] \<Rightarrow> NaN
      | y # ys \<Rightarrow> fdiv (foldl add_double y ys) (Fin (real (length (y # ys)))))"

fun insort_float :: "pyfloat \<Rightarrow> pyfloat list \<Rightarrow> pyfloat list" where
  "insort_float x [] = [x]"
| "insort_float x (y # ys) = (if fle x y then x # y # ys else y # insort_float x ys)"

definition sort_floats :: "pyfloat list \<Rightarrow> pyfloat list" where
  "sort_floats xs = foldr insort_float xs []"

text \<open>
  The median: the middle value of the sorted values, or the mean of the two middle values
  when their number is even.
\<close>

definition series_median :: "pyfloat list \<Rightarrow> pyfloat" where
  "series_median xs =
     (let ys = sort_floats (dropna xs); n = length ys
      in if n = 0 then NaN
         else if odd n then ys ! (n div 2)
         else fdiv (add_double (ys ! (n div 2 - 1)) (ys ! (n div 2))) (Fin 2))"

text \<open>
  The sample standard deviation (\<^verbatim>\<open>ddof=1\<close>): NaN for fewer than two values, and NaN as
  soon as one value is infinite.  When the sum of the values or of the squared deviations
  leaves the range of a double, the result is an infinity.
\<close>

fun fin_values :: "pyfloat list \<Rightarrow> real list option" where
  "fin_values [] = Some []"
| "fin_values (Fin r # xs) = map_option ((#) r) (fin_values xs)"
| "fin_values (x # xs) = None"

definition series_std :: "pyfloat list \<Rightarrow> pyfloat" where
  "series_std xs =
     (let ys = dropna xs; n = length ys
      in if n \<le> 1 then NaN
         else (case fin_values ys of
                 None \<Rightarrow> NaN
               | Some rs \<Rightarrow>
                   (case foldl add_double (Fin 0) ys of
                      Fin s \<Rightarrow>
                        (let m = s / real n
                         in (case to_double (sum_list (map (\<lambda>r. (r - m)\<^sup>2) rs)) of
                               Fin squares \<Rightarrow> Fin (sqrt (squares / real (n - 1)))
                             | _ \<Rightarrow> PInf))
                    | _ \<Rightarrow> PInf)))"

text \<open>
  Columns of labels hold arbitrary JSON values.  \<^verbatim>\<open>nunique\<close> and \<^verbatim>\<open>value_counts\<close> hash
  the labels, which raises \<^verbatim>\<open>TypeError\<close> on a list or a dict, and leave out missing labels
  (\<^verbatim>\<open>dropna=True\<close>).  Two labels are the same when Python's \<^verbatim>\<open>==\<close> holds of them: a
  boolean is the integer 0 or 1, and a float with an integral value is that integer.
\<close>

fun label_key :: "json \<Rightarrow> json" where
  "label_key (JBool b) = JInt (if b then 1 else 0)"
| "label_key (JFloat (Fin r)) = (if r = of_int \<lfloor>r\<rfloor> then JInt \<lfloor>r\<rfloor> else JFloat (Fin r))"
| "label_key x = x"

definition same_label :: "json \<Rightarrow> json \<Rightarrow> bool" where
  "same_label x k = (label_key x = label_key k)"

fun hashable :: "json \<Rightarrow> bool" where
  "hashable (JList xs) = False"
| "hashable (JDict kvs) = False"
| "hashable x = True"

fun isna :: "json \<Rightarrow> bool" where
  "isna JNull = True"
| "isna (JFloat f) = (f = NaN)"
| "isna x = False"

definition nunique :: "json list \<Rightarrow> py_error + nat" where
  "nunique xs =
     (if list_all hashable xs
      then Inr (length (remdups (map label_key (filter (\<lambda>x. \<not> isna x) xs))))
      else Inl TypeError)"

text \<open>
  \<^verbatim>\<open>value_counts().to_dict()\<close>: the labels are counted in a hash table that keeps them in
  the order of their first occurrence, each under the label that occurred first, and the
  table is then sorted by descending count with a sort that keeps that order among equal
  counts.  The resulting dict is the list of its items in insertion order.
\<close>

fun count_label :: "json \<Rightarrow> (json \<times> nat) list \<Rightarrow> (json \<times> nat) list" where
  "count_label x [] = [(x, 1)]"
| "count_label x ((k, n) # kvs) =
     (if same_label x k then (k, n + 1) # kvs else (k, n) # count_label x kvs)"

definition count_labels :: "json list \<Rightarrow> (json \<times> nat) list" where
  "count_labels xs = foldl (\<lambda>tab x. count_label x tab) [] xs"

definition value_counts :: "json list \<Rightarrow> py_error + (json \<times> nat) list" where
  "value_counts xs =
     (if list_all hashable xs
      then Inr (sort_key (\<lambda>kv. - int (snd kv)) (count_labels (filter (\<lambda>x. \<not> isna x) xs)))
      else Inl TypeError)"

section \<open>The history store (data\_persistence.py)\<close>

text \<open>
  The result object of an analysis.  The KPI block is a dict whose values are numbers or
  the string \<^verbatim>\<open>"N/A"\<close>; it is kept as the list of its items, so that the empty dict is the
  empty list.
\<close>

record price_analysis =
  minimum :: pyfloat
  maximum :: pyfloat
  average :: pyfloat
  median :: pyfloat

record analysis_summary =
  itemsFound :: nat
  sellersCount :: nat

datatype kpi_value = KNum pyfloat | KStr string

record analysis =
  analysisTimestamp :: nat
  priceAnalysis :: price_analysis
  summary :: analysis_summary
  brandDistribution :: "(json \<times> nat) list"
  conditionDistribution :: "(json \<times> nat) list"
  kpis :: "(string \<times> kpi_value) list"

text \<open>
  A row of the table \<^verbatim>\<open>market_analyses\<close>.  A timestamp is the reading of the UTC clock at
  the moment of the call; ISO-8601 strings of one time zone compare as the instants do, so
  a timestamp is a natural number here.  The table is the list of its rows in insertion
  order.
\<close>

record row =
  search_text :: string
  analysis_timestamp :: nat
  analysis_data :: analysis

type_synonym db = "row list"

definition save_analysis :: "string \<Rightarrow> analysis \<Rightarrow> nat \<Rightarrow> db \<Rightarrow> db" where
  "save_analysis key a now rows =
     rows @ [\<lparr>search_text = key, analysis_timestamp = now, analysis_data = a\<rparr>]"

text \<open>
  \<^verbatim>\<open>SELECT ... WHERE search_text = ? ORDER BY analysis_timestamp DESC LIMIT ?\<close>: the rows
  of the key, newest first, at most \<open>limit\<close> of them.  Each row is returned as the pair of
  its timestamp and its analysis.  Among equal timestamps the later insertion comes
  first.
\<close>

definition get_historical_analyses :: "string \<Rightarrow> nat \<Rightarrow> db \<Rightarrow> (nat \<times> analysis) list" where
  "get_historical_analyses key limit rows =
     map (\<lambda>r. (analysis_timestamp r, analysis_data r))
       (take limit (rev (sort_key analysis_timestamp (filter (\<lambda>r. search_text r = key) rows))))"

section \<open>The analyzer (market\_analyzer.py)\<close>

subsection \<open>\<^verbatim>\<open>normalize_brand_name\<close>\<close>

definition corrections :: "(string \<times> string) list" where
  "corrections =
     [(''nik'', ''nike''),
      (''addidas'', ''adidas''),
      (''pumaa'', ''puma''),
      (''zaraa'', ''zara''),
      (''h&m'', ''h&m'')]"

definition normalize_brand_name :: "string \<Rightarrow> string" where
  "normalize_brand_name brand_name =
     (case map_of corrections (lower brand_name) of None \<Rightarrow> brand_name | Some c \<Rightarrow> c)"

text \<open>Line 99: the search text with every word corrected, joined by single spaces.\<close>

definition normalized_search_text :: "string \<Rightarrow> string" where
  "normalized_search_text text = join '' '' (map normalize_brand_name (split text))"

subsection \<open>The normalizer: the loop over the raw items\<close>

record normalized_record =
  price :: pyfloat
  brand :: json
  condition :: json
  seller_login :: json

text \<open>The default label \<^verbatim>\<open>'Non sp\'ecifi\'e'\<close>, in UTF-8.\<close>

definition non_specifie :: string where
  "non_specifie = ''Non sp'' @ [CHR 0xC3, CHR 0xA9] @ ''cifi'' @ [CHR 0xC3, CHR 0xA9]"

text \<open>\<^verbatim>\<open>float(item['price']['amount'])\<close>.\<close>

definition raw_price :: "json \<Rightarrow> py_error + pyfloat" where
  "raw_price item =
     (case getitem item ''price'' of
        Inl e \<Rightarrow> Inl e
      | Inr p \<Rightarrow> (case getitem p ''amount'' of Inl e \<Rightarrow> Inl e | Inr a \<Rightarrow> float a))"

text \<open>\<^verbatim>\<open>item['user']['login']\<close>.\<close>

definition raw_login :: "json \<Rightarrow> py_error + json" where
  "raw_login item =
     (case getitem item ''user'' of Inl e \<Rightarrow> Inl e | Inr u \<Rightarrow> getitem u ''login'')"

text \<open>
  The body of the \<^verbatim>\<open>try\<close>: the dict literal is evaluated from its first entry to its last,
  and the first exception ends it.  Once \<^verbatim>\<open>item['price']\<close> has succeeded the item is a
  dict, so \<^verbatim>\<open>item.get\<close> exists; the last case is never reached.
\<close>

definition make_record :: "json \<Rightarrow> py_error + normalized_record" where
  "make_record item =
     (case raw_price item of
        Inl e \<Rightarrow> Inl e
      | Inr f \<Rightarrow>
          (case item of
             JDict kvs \<Rightarrow>
               (let b = dict_get kvs ''brand_title'' (JStr non_specifie);
                    c = dict_get kvs ''status'' (JStr non_specifie)
                in (case raw_login item of
                      Inl e \<Rightarrow> Inl e
                    | Inr l \<Rightarrow> Inr \<lparr>price = f, brand = b, condition = c, seller_login = l\<rparr>))
           | _ \<Rightarrow> Inl TypeError))"

text \<open>\<^verbatim>\<open>except (KeyError, TypeError, ValueError): continue\<close>.\<close>

definition caught :: "py_error \<Rightarrow> bool" where
  "caught e = (e = KeyError \<or> e = TypeError \<or> e = ValueError)"

fun normalize_items :: "json list \<Rightarrow> py_error + normalized_record list" where
  "normalize_items [] = Inr []"
| "normalize_items (item # items) =
     (case make_record item of
        Inr r \<Rightarrow> (case normalize_items items of Inl e \<Rightarrow> Inl e | Inr records \<Rightarrow> Inr (r # records))
      | Inl e \<Rightarrow> if caught e then normalize_items items else Inl e)"

subsection \<open>\<^verbatim>\<open>calculate_kpis\<close>\<close>

text \<open>
  The DataFrame is the list of the normalized records.  Every snapshot in the store has
  \<^verbatim>\<open>analysisData.priceAnalysis.average\<close>, so the comprehension of line 64 keeps each row
  of the history.  The only call that can raise is \<^verbatim>\<open>nunique\<close>.
\<close>

definition calculate_kpis ::
  "normalized_record list \<Rightarrow> string \<Rightarrow> db \<Rightarrow> py_error + (string \<times> kpi_value) list" where
  "calculate_kpis df key rows =
     (let average_price = (if df \<noteq> [] then series_mean (map price df) else Fin 0);
          prix = (if fgt average_price (Fin 0) then fround2 (fmul average_price (Fin (95 / 100)))
                  else Fin 0);
          total_listed_items_estimate = length df * 2;
          taux = (if total_listed_items_estimate > 0
                  then fround2 (Fin (real (length df) / real total_listed_items_estimate * 100))
                  else Fin 0);
          price_std = (if length df > 1 then series_std (map price df) else Fin 0)
      in (case (if df \<noteq> [] then nunique (map seller_login df) else Inr 0) of
            Inl e \<Rightarrow> Inl e
          | Inr num_sellers \<Rightarrow>
              (let score = (if num_sellers > 0
                            then fround2 (fmul (fdiv (Fin 1) (fadd price_std (Fin 1)))
                                               (Fin (real num_sellers)))
                            else Fin 0);
                   historical_analyses = get_historical_analyses key 30 rows;
                   tendance =
                     (if length historical_analyses > 1 then
                        (let historical_prices =
                               map (\<lambda>h. average (priceAnalysis (snd h))) historical_analyses
                         in if length historical_prices > 1 then
                              (let current_avg = average_price;
                                   oldest_avg = last historical_prices
                               in if fgt oldest_avg (Fin 0)
                                  then fround2 (fmul (fdiv (fsub current_avg oldest_avg) oldest_avg)
                                                     (Fin 100))
                                  else Fin 0)
                            else Fin 0)
                      else Fin 0)
               in Inr [(''prixOptimalRecommande'', KNum prix),
                       (''tauxDeRotation'', KNum taux),
                       (''partDeMarcheRelative'', KStr ''N/A''),
                       (''scoreCompetitivite'', KNum score),
                       (''tendancePrix30Jours'', KNum tendance),
                       (''elasticitePrix'', KStr ''N/A'')])))"

subsection \<open>\<^verbatim>\<open>analyze_market_by_product_name\<close>\<close>

text \<open>
  The marketplace is a function from the search text and the access token of a request
  to its outcome: the request failed (transport error, HTTP error status, a body that is
  not JSON), or it returned a JSON body.
\<close>

datatype reply = RequestFailed | Body json

text \<open>The two literals of the empty result, lines 125 to 132 and 150 to 157.\<close>

definition empty_analysis :: "nat \<Rightarrow> analysis" where
  "empty_analysis now =
     \<lparr>analysisTimestamp = now,
      priceAnalysis = \<lparr>minimum = Fin 0, maximum = Fin 0, average = Fin 0, median = Fin 0\<rparr>,
      summary = \<lparr>itemsFound = 0, sellersCount = 0\<rparr>,
      brandDistribution = [],
      conditionDistribution = [],
      kpis = []\<rparr>"

definition empty_analysis_no_records :: "nat \<Rightarrow> analysis" where
  "empty_analysis_no_records now =
     \<lparr>analysisTimestamp = now,
      priceAnalysis = \<lparr>minimum = Fin 0, maximum = Fin 0, average = Fin 0, median = Fin 0\<rparr>,
      summary = \<lparr>itemsFound = 0, sellersCount = 0\<rparr>,
      brandDistribution = [],
      conditionDistribution = [],
      kpis = []\<rparr>"

text \<open>Lines 162 to 195: the aggregation of a non-empty batch, and the save.\<close>

definition aggregate ::
  "normalized_record list \<Rightarrow> string \<Rightarrow> nat \<Rightarrow> nat \<Rightarrow> db \<Rightarrow> py_error + analysis \<times> db" where
  "aggregate df key now save_time rows =
     (let price_metrics =
            \<lparr>minimum = series_min (map price df),
             maximum = series_max (map price df),
             average = fround2 (series_mean (map price df)),
             median = series_median (map price df)\<rparr>
      in (case nunique (map seller_login df) of
            Inl e \<Rightarrow> Inl e
          | Inr sellers \<Rightarrow>
         (case calculate_kpis df key rows of
            Inl e \<Rightarrow> Inl e
          | Inr calculated_kpis \<Rightarrow>
         (case value_counts (map brand df) of
            Inl e \<Rightarrow> Inl e
          | Inr brands \<Rightarrow>
         (case value_counts (map condition df) of
            Inl e \<Rightarrow> Inl e
          | Inr conditions \<Rightarrow>
              (let final_result =
                     \<lparr>analysisTimestamp = now,
                      priceAnalysis = price_metrics,
                      summary = \<lparr>itemsFound = length df, sellersCount = sellers\<rparr>,
                      brandDistribution = brands,
                      conditionDistribution = conditions,
                      kpis = calculated_kpis\<rparr>
               in Inr (final_result, save_analysis key final_result save_time rows)))))))"

text \<open>
  The whole run.  \<open>now\<close> is the clock reading that becomes \<^verbatim>\<open>analysisTimestamp\<close>,
  \<open>save_time\<close> the later one that \<^verbatim>\<open>save_analysis\<close> takes.  The result is the returned
  analysis with the store after the run, or the exception that left the function; no
  exception is raised after a save.
\<close>

definition analyze_market_by_product_name ::
  "(string \<Rightarrow> string \<Rightarrow> reply) \<Rightarrow> string \<Rightarrow> string \<Rightarrow> nat \<Rightarrow> nat \<Rightarrow> db
     \<Rightarrow> py_error + analysis \<times> db" where
  "analyze_market_by_product_name vinted key access_token now save_time rows =
     (case vinted (normalized_search_text key) access_token of
        RequestFailed \<Rightarrow> Inl ConnectionError
      | Body (JDict members) \<Rightarrow>
          (let data = dict_get members ''items'' (JList [])
           in if \<not> truthy data then
                Inr (empty_analysis now, save_analysis key (empty_analysis now) save_time rows)
              else
                (case iterate data of
                   Inl e \<Rightarrow> Inl e
                 | Inr items \<Rightarrow>
                (case normalize_items items of
                   Inl e \<Rightarrow> Inl e
                 | Inr records \<Rightarrow>
                     if records = [] then
                       Inr (empty_analysis_no_records now,
                            save_analysis key (empty_analysis_no_records now) save_time rows)
                     else aggregate records key now save_time rows)))
      | Body _ \<Rightarrow> Inl ConnectionError)"

section \<open>Concrete inputs\<close>

text \<open>A raw item as the marketplace sends it, and incomplete ones.\<close>

definition raw_item :: "json \<Rightarrow> string \<Rightarrow> string \<Rightarrow> json" where
  "raw_item amount brand_title login =
     JDict [(''price'', JDict [(''amount'', amount)]),
            (''brand_title'', JStr brand_title),
            (''status'', JStr ''Bon'' ),
            (''user'', JDict [(''login'', JStr login)])]"

definition item_without_login :: "string \<Rightarrow> json" where
  "item_without_login amount =
     JDict [(''price'', JDict [(''amount'', JStr amount)]),
            (''brand_title'', JStr ''nike''),
            (''user'', JDict [(''id'', JInt 7)])]"

text \<open>A marketplace that answers every request with the same items.\<close>

definition serving :: "json list \<Rightarrow> string \<Rightarrow> string \<Rightarrow> reply" where
  "serving items text token = Body (JDict [(''items'', JList items)])"

text \<open>A stored snapshot whose average price is \<open>avg\<close>, saved at \<open>t\<close> under \<open>key\<close>.\<close>

definition snapshot :: "string \<Rightarrow> nat \<Rightarrow> real \<Rightarrow> row" where
  "snapshot key t avg =
     \<lparr>search_text = key, analysis_timestamp = t,
      analysis_data =
        \<lparr>analysisTimestamp = t,
         priceAnalysis = \<lparr>minimum = Fin avg, maximum = Fin avg, average = Fin avg, median = Fin avg\<rparr>,
         summary = \<lparr>itemsFound = 1, sellersCount = 1\<rparr>,
         brandDistribution = [],
         conditionDistribution = [],
         kpis = []\<rparr>\<rparr>"

definition record_of :: "real \<Rightarrow> string \<Rightarrow> normalized_record" where
  "record_of p login =
     \<lparr>price = Fin p, brand = JStr ''nike'', condition = JStr ''Bon'', seller_login = JStr login\<rparr>"

text \<open>Reading one KPI, and the analysis a run returned.\<close>

definition kpi_of :: "string \<Rightarrow> py_error + (string \<times> kpi_value) list \<Rightarrow> kpi_value option" where
  "kpi_of name r = (case r of Inl e \<Rightarrow> None | Inr ks \<Rightarrow> map_of ks name)"

definition returned :: "py_error + analysis \<times> db \<Rightarrow> analysis option" where
  "returned r = (case r of Inl e \<Rightarrow> None | Inr p \<Rightarrow> Some (fst p))"

definition kpi :: "string \<Rightarrow> analysis \<Rightarrow> kpi_value option" where
  "kpi name a = map_of (kpis a) name"

text \<open>The average prices of the history of a key, newest first, as line 64 collects them.\<close>

definition history_prices :: "string \<Rightarrow> db \<Rightarrow> pyfloat list" where
  "history_prices key rows =
     map (\<lambda>h. average (priceAnalysis (snd h))) (get_historical_analyses key 30 rows)"

section \<open>Evaluating the conversions\<close>

text \<open>The overflow bound as a numeral, for evaluation.\<close>

lemma float_overflow_numeral [code]:
  "float_overflow = 179769313486231580793728971405303415079934132710037826936173778980444968292764750946649017977587207096330286416692887910946555547851940402630657488671505820681908902000708383676273854845817711531764475730270069855571366959622842914819860834936475292719074168444365510704342711559699508093042880177904174497792"
  by (simp add: float_overflow_def)

section \<open>The normalizer\<close>

lemma caught_cases: "caught e \<longleftrightarrow> e \<noteq> OverflowError \<and> e \<noteq> ConnectionError"
  by (cases e) (simp_all add: caught_def)

lemma getitem_error: "getitem x k = Inl e \<Longrightarrow> e = KeyError \<or> e = TypeError"
  by (cases x) (auto split: option.splits)

lemma float_error: "float x = Inl e \<Longrightarrow> e = TypeError \<or> e = ValueError \<or> e = OverflowError"
  by (cases x) (auto split: option.splits if_splits)

lemma raw_price_error:
  "raw_price item = Inl e \<Longrightarrow> e = KeyError \<or> e = TypeError \<or> e = ValueError \<or> e = OverflowError"
  unfolding raw_price_def
  by (auto split: sum.splits dest: getitem_error float_error)

lemma raw_login_error: "raw_login item = Inl e \<Longrightarrow> e = KeyError \<or> e = TypeError"
  unfolding raw_login_def
  by (auto split: sum.splits dest: getitem_error)

lemma make_record_error:
  "make_record item = Inl e \<Longrightarrow> e = KeyError \<or> e = TypeError \<or> e = ValueError \<or> e = OverflowError"
  unfolding make_record_def
  by (auto simp: Let_def split: sum.splits json.splits dest: raw_price_error raw_login_error)

lemma make_record_price: "make_record item = Inr r \<Longrightarrow> raw_price item = Inr (price r)"
  unfolding make_record_def
  by (auto simp: Let_def split: sum.splits json.splits)

lemma make_record_no_price: "raw_price item = Inl e \<Longrightarrow> make_record item = Inl e"
  unfolding make_record_def by simp

text \<open>The normalizer returns at most one record for each raw item.\<close>

lemma normalize_length: "normalize_items items = Inr records \<Longrightarrow> length records \<le> length items"
proof (induction items arbitrary: records)
  case Nil
  then show ?case by simp
next
  case (Cons item items)
  then show ?case
    by (fastforce split: sum.splits if_splits)
qed

text \<open>The only exception that leaves the loop is the one the \<^verbatim>\<open>except\<close> clause does not name.\<close>

lemma normalize_error: "normalize_items items = Inl e \<Longrightarrow> e = OverflowError"
proof (induction items)
  case Nil
  then show ?case by simp
next
  case (Cons item items)
  then show ?case
    by (auto simp: caught_cases split: sum.splits if_splits dest: make_record_error)
qed

lemma normalize_append:
  "normalize_items (xs @ ys) =
     (case normalize_items xs of
        Inl e \<Rightarrow> Inl e
      | Inr rs \<Rightarrow> (case normalize_items ys of Inl e \<Rightarrow> Inl e | Inr rs' \<Rightarrow> Inr (rs @ rs')))"
  by (induction xs) (auto split: sum.splits)

lemma make_record_overflow:
  "make_record item = Inl OverflowError \<Longrightarrow> raw_price item = Inl OverflowError"
  unfolding make_record_def
  by (auto simp: Let_def split: sum.splits json.splits dest: raw_login_error)

lemma normalize_error_source:
  "normalize_items items = Inl e \<Longrightarrow> \<exists>item \<in> set items. make_record item = Inl e \<and> \<not> caught e"
  by (induction items) (auto split: sum.splits if_splits)

lemma normalize_returns:
  assumes "\<forall>item \<in> set items. raw_price item \<noteq> Inl OverflowError"
  shows "\<exists>records. normalize_items items = Inr records \<and> length records \<le> length items"
proof (cases "normalize_items items")
  case (Inl e)
  then have "e = OverflowError" by (rule normalize_error)
  with Inl obtain item where "item \<in> set items" and "make_record item = Inl OverflowError"
    using normalize_error_source by blast
  with assms show ?thesis using make_record_overflow by blast
next
  case (Inr records)
  then show ?thesis using normalize_length by blast
qed

lemma normalize_with_huge_amount:
  "normalize_items [raw_item (JStr ''10.0'') ''nike'' ''bob'',
              raw_item (JInt (10 ^ 400)) ''nike'' ''alice'',
              raw_item (JStr ''12.0'') ''nike'' ''carol''] = Inl OverflowError"
  by code_simp

lemma analyze_serving:
  "items \<noteq> [] \<Longrightarrow>
   analyze_market_by_product_name (serving items) key token now save_time rows =
     (case normalize_items items of
        Inl e \<Rightarrow> Inl e
      | Inr records \<Rightarrow>
          if records = [] then
            Inr (empty_analysis_no_records now,
                 save_analysis key (empty_analysis_no_records now) save_time rows)
          else aggregate records key now save_time rows)"
  by (simp add: analyze_market_by_product_name_def serving_def dict_get_def)

text \<open>
  Claim C6.  A raw item whose amount is a JSON integer beyond the range of a double makes
  \<^verbatim>\<open>float()\<close> raise \<^verbatim>\<open>OverflowError\<close>, which the \<^verbatim>\<open>except\<close> clause does not name: the
  record is not skipped, the exception leaves the normalizer and the whole run, and the
  well-formed items around it are lost.
\<close>

theorem overflow_escapes_normalizer:
  "normalize_items [raw_item (JStr ''10.0'') ''nike'' ''bob'',
              raw_item (JInt (10 ^ 400)) ''nike'' ''alice'',
              raw_item (JStr ''12.0'') ''nike'' ''carol''] = Inl OverflowError
   \<and> analyze_market_by_product_name
        (serving [raw_item (JStr ''10.0'') ''nike'' ''bob'',
                  raw_item (JInt (10 ^ 400)) ''nike'' ''alice'',
                  raw_item (JStr ''12.0'') ''nike'' ''carol''])
        ''nike'' ''token'' 5 6 [] = Inl OverflowError"
  by (simp only: analyze_serving normalize_with_huge_amount list.distinct not_False_eq_True
      sum.case simp_thms)

text \<open>
  Claim C5, as stated, fails: an amount of \<^verbatim>\<open>"-5.0"\<close> is retained with a negative price,
  and an amount of \<^verbatim>\<open>"nan"\<close> is retained with a price that is not finite.
\<close>

theorem negative_and_nan_prices_retained:
  "normalize_items [raw_item (JStr ''-5.0'') ''nike'' ''alice'', raw_item (JStr ''nan'') ''puma'' ''bob''] =
     Inr [\<lparr>price = Fin (- 5), brand = JStr ''nike'', condition = JStr ''Bon'',
            seller_login = JStr ''alice''\<rparr>,
          \<lparr>price = NaN, brand = JStr ''puma'', condition = JStr ''Bon'',
            seller_login = JStr ''bob''\<rparr>]
   \<and> \<not> fle (Fin 0) (Fin (- 5)) \<and> \<not> is_finite NaN"
  by code_simp

lemma normalize_record_source:
  "normalize_items items = Inr records \<Longrightarrow> r \<in> set records \<Longrightarrow>
     \<exists>item \<in> set items. make_record item = Inr r"
proof (induction items arbitrary: records)
  case Nil
  then show ?case by simp
next
  case (Cons item items)
  show ?case
  proof (cases "make_record item")
    case (Inl e)
    with Cons.prems have "normalize_items items = Inr records"
      by (simp split: if_splits)
    with Cons.IH Cons.prems(2) show ?thesis by auto
  next
    case (Inr r')
    with Cons.prems(1) obtain rest where rest: "normalize_items items = Inr rest" "records = r' # rest"
      by (auto split: sum.splits)
    show ?thesis
    proof (cases "r = r'")
      case True
      with Inr show ?thesis by simp
    next
      case False
      with rest Cons.prems(2) have "r \<in> set rest" by simp
      with Cons.IH rest(1) show ?thesis by auto
    qed
  qed
qed

text \<open>
  Claim C5, amended.  The price of every retained record is the value \<^verbatim>\<open>float()\<close> gives
  for the amount of one of the raw items, whatever its sign and whether finite or not; and
  a raw item whose amount is missing or does not convert (\<^verbatim>\<open>KeyError\<close>, \<^verbatim>\<open>TypeError\<close> or
  \<^verbatim>\<open>ValueError\<close>) is dropped: the batch normalizes as it does without the item.
\<close>

theorem retained_price_is_parsed_amount:
  "(normalize_items items = Inr records \<longrightarrow>
      (\<forall>r \<in> set records. \<exists>item \<in> set items. raw_price item = Inr (price r)))
   \<and> (raw_price item = Inl e \<and> caught e \<longrightarrow>
        normalize_items (earlier @ item # later) = normalize_items (earlier @ later))"
proof
  show "normalize_items items = Inr records \<longrightarrow>
      (\<forall>r \<in> set records. \<exists>item \<in> set items. raw_price item = Inr (price r))"
    using normalize_record_source make_record_price by blast
next
  show "raw_price item = Inl e \<and> caught e \<longrightarrow>
        normalize_items (earlier @ item # later) = normalize_items (earlier @ later)"
  proof
    assume h: "raw_price item = Inl e \<and> caught e"
    then have "make_record item = Inl e" by (simp add: make_record_no_price)
    with h have "normalize_items (item # later) = normalize_items later" by simp
    then show "normalize_items (earlier @ item # later) = normalize_items (earlier @ later)"
      by (simp only: normalize_append)
  qed
qed

lemma raw_price_examples:
  "raw_price (raw_item (JStr ''12.5'') ''nike'' ''alice'') = Inr (Fin (25 / 2))"
  "raw_price (raw_item (JStr ''douze'') ''nike'' ''bob'') = Inl ValueError"
  "raw_price (raw_item JNull ''nike'' ''bob'') = Inl TypeError"
  "raw_price (JDict [(''user'', JDict [(''login'', JStr ''bob'')])]) = Inl KeyError"
  by code_simp+

theorem retained_price_is_parsed_amount_witness:
  "normalize_items [raw_item (JStr ''12.5'') ''nike'' ''alice'', raw_item (JStr ''douze'') ''nike'' ''bob''] =
     Inr [\<lparr>price = Fin (25 / 2), brand = JStr ''nike'', condition = JStr ''Bon'',
            seller_login = JStr ''alice''\<rparr>]
   \<and> raw_price (raw_item (JStr ''12.5'') ''nike'' ''alice'') = Inr (Fin (25 / 2))
   \<and> raw_price (raw_item (JStr ''douze'') ''nike'' ''bob'') = Inl ValueError
   \<and> caught ValueError
   \<and> normalize_items ([raw_item (JStr ''12.5'') ''nike'' ''alice''] @
                 raw_item (JStr ''douze'') ''nike'' ''bob'' # []) =
      normalize_items ([raw_item (JStr ''12.5'') ''nike'' ''alice''] @ [])"
proof -
  have n: "normalize_items [raw_item (JStr ''12.5'') ''nike'' ''alice'', raw_item (JStr ''douze'') ''nike'' ''bob''] =
     Inr [\<lparr>price = Fin (25 / 2), brand = JStr ''nike'', condition = JStr ''Bon'',
            seller_login = JStr ''alice''\<rparr>]"
    by code_simp
  have c: "caught ValueError" by (simp add: caught_def)
  show ?thesis
    using retained_price_is_parsed_amount
      [of "[raw_item (JStr ''12.5'') ''nike'' ''alice'', raw_item (JStr ''douze'') ''nike'' ''bob'']"
          "[\<lparr>price = Fin (25 / 2), brand = JStr ''nike'', condition = JStr ''Bon'',
            seller_login = JStr ''alice''\<rparr>]"
          "raw_item (JStr ''douze'') ''nike'' ''bob''" ValueError
          "[raw_item (JStr ''12.5'') ''nike'' ''alice'']" "[]"]
      n c raw_price_examples(1,2)
    by simp
qed

section \<open>The empty result\<close>

lemma empty_literals_agree: "empty_analysis_no_records now = empty_analysis now"
  by (simp add: empty_analysis_no_records_def empty_analysis_def)

text \<open>
  Claim C1.  Whenever the normalized batch is empty, because the marketplace returned no
  item (the value under \<^verbatim>\<open>items\<close> is falsy) or because the normalizer dropped every
  item, the run returns the canonical empty result: a price analysis of zeros, zero items
  and sellers, empty distributions and an empty KPI dict.  The literals of the two paths
  are equal, and the result is appended to the store under the search text.
\<close>

theorem empty_batch_gives_canonical_result:
  assumes reply: "vinted (normalized_search_text key) access_token = Body (JDict members)"
    and empty: "\<not> truthy (dict_get members ''items'' (JList []))
                \<or> (\<exists>items. iterate (dict_get members ''items'' (JList [])) = Inr items
                             \<and> normalize_items items = Inr [])"
  shows "analyze_market_by_product_name vinted key access_token now save_time rows =
           Inr (empty_analysis now,
                rows @ [\<lparr>search_text = key, analysis_timestamp = save_time,
                          analysis_data = empty_analysis now\<rparr>])
         \<and> empty_analysis_no_records now = empty_analysis now
         \<and> priceAnalysis (empty_analysis now) =
             \<lparr>minimum = Fin 0, maximum = Fin 0, average = Fin 0, median = Fin 0\<rparr>
         \<and> summary (empty_analysis now) = \<lparr>itemsFound = 0, sellersCount = 0\<rparr>
         \<and> brandDistribution (empty_analysis now) = []
         \<and> conditionDistribution (empty_analysis now) = []
         \<and> kpis (empty_analysis now) = []"
proof -
  have run: "analyze_market_by_product_name vinted key access_token now save_time rows =
           Inr (empty_analysis now,
                rows @ [\<lparr>search_text = key, analysis_timestamp = save_time,
                          analysis_data = empty_analysis now\<rparr>])"
    using empty
  proof
    assume "\<not> truthy (dict_get members ''items'' (JList []))"
    then show ?thesis
      by (simp add: analyze_market_by_product_name_def reply save_analysis_def Let_def)
  next
    assume "\<exists>items. iterate (dict_get members ''items'' (JList [])) = Inr items
                     \<and> normalize_items items = Inr []"
    then obtain items where "iterate (dict_get members ''items'' (JList [])) = Inr items"
      and "normalize_items items = Inr []" by blast
    then show ?thesis
      by (simp add: analyze_market_by_product_name_def reply save_analysis_def
          empty_literals_agree Let_def)
  qed
  show ?thesis
    using run by (simp add: empty_literals_agree) (simp add: empty_analysis_def)
qed

lemma normalize_without_login:
  "normalize_items [item_without_login ''10.0'', item_without_login ''12.5''] = Inr []"
  by code_simp

theorem empty_batch_gives_canonical_result_witness:
  "analyze_market_by_product_name (serving []) ''nik air'' ''token'' 5 6 [] =
     Inr (empty_analysis 5,
          [\<lparr>search_text = ''nik air'', analysis_timestamp = 6, analysis_data = empty_analysis 5\<rparr>])
   \<and> analyze_market_by_product_name
        (serving [item_without_login ''10.0'', item_without_login ''12.5''])
        ''nik air'' ''token'' 5 6 [] =
     Inr (empty_analysis 5,
          [\<lparr>search_text = ''nik air'', analysis_timestamp = 6, analysis_data = empty_analysis 5\<rparr>])"
proof -
  have a: "serving [] (normalized_search_text ''nik air'') ''token'' =
             Body (JDict [(''items'', JList [])])"
    by (simp add: serving_def)
  have b: "serving [item_without_login ''10.0'', item_without_login ''12.5'']
             (normalized_search_text ''nik air'') ''token'' =
             Body (JDict [(''items'', JList [item_without_login ''10.0'', item_without_login ''12.5''])])"
    by (simp add: serving_def)
  have a': "\<not> truthy (dict_get [(''items'', JList [])] ''items'' (JList []))"
    by (simp add: dict_get_def)
  have b': "\<exists>items. iterate (dict_get [(''items'', JList [item_without_login ''10.0'', item_without_login ''12.5''])] ''items'' (JList [])) = Inr items
                             \<and> normalize_items items = Inr []"
    using normalize_without_login by (simp add: dict_get_def)
  show ?thesis
    using empty_batch_gives_canonical_result
        [where vinted = "serving []" and key = "''nik air''" and access_token = "''token''"
           and now = 5 and save_time = 6 and rows = "[]", OF a]
      empty_batch_gives_canonical_result
        [where vinted = "serving [item_without_login ''10.0'', item_without_login ''12.5'']"
           and key = "''nik air''" and access_token = "''token''"
           and now = 5 and save_time = 6 and rows = "[]", OF b]
      a' b'
    by simp
qed

section \<open>The KPIs\<close>

lemma round_half_even_of_int [simp]: "round_half_even (of_int k) = k"
  by (simp add: round_half_even_def)

lemma round_half_even_numeral [simp]: "round_half_even (numeral k) = numeral k"
  using round_half_even_of_int [of "numeral k"] by simp

lemma fround2_fifty: "fround2 (Fin 50) = Fin 50"
  by (simp add: round_half_even_numeral)

lemma nunique_returns: "list_all hashable xs \<Longrightarrow> \<exists>n. nunique xs = Inr n"
  by (simp add: nunique_def)

text \<open>
  Claim C9.  The turnover rate that \<^verbatim>\<open>calculate_kpis\<close> returns is 50 for every non-empty
  batch, whatever its records, and 0 for the empty batch only; and \<^verbatim>\<open>calculate_kpis\<close>
  returns whenever the seller logins are hashable.
\<close>

theorem turnover_rate_is_fifty:
  "(calculate_kpis df key rows = Inr ks \<longrightarrow>
      map_of ks ''tauxDeRotation'' = Some (KNum (if df = [] then Fin 0 else Fin 50)))
   \<and> (list_all hashable (map seller_login df) \<longrightarrow>
        (\<exists>ks. calculate_kpis df key rows = Inr ks))"
proof
  show "calculate_kpis df key rows = Inr ks \<longrightarrow>
      map_of ks ''tauxDeRotation'' = Some (KNum (if df = [] then Fin 0 else Fin 50))"
  proof
    assume r: "calculate_kpis df key rows = Inr ks"
    show "map_of ks ''tauxDeRotation'' = Some (KNum (if df = [] then Fin 0 else Fin 50))"
    proof (cases "df = []")
      case True
      with r show ?thesis
        by (auto simp: calculate_kpis_def Let_def)
    next
      case False
      with r show ?thesis
        by (auto simp: calculate_kpis_def Let_def round_half_even_numeral split: sum.splits)
    qed
  qed
next
  show "list_all hashable (map seller_login df) \<longrightarrow> (\<exists>ks. calculate_kpis df key rows = Inr ks)"
  proof
    assume "list_all hashable (map seller_login df)"
    then obtain n where "nunique (map seller_login df) = Inr n"
      using nunique_returns by blast
    then show "\<exists>ks. calculate_kpis df key rows = Inr ks"
      by (simp add: calculate_kpis_def Let_def)
  qed
qed

theorem turnover_rate_is_fifty_witness:
  "list_all hashable (map seller_login [record_of 10 ''alice'', record_of 35 ''bob''])
   \<and> kpi_of ''tauxDeRotation''
        (calculate_kpis [record_of 10 ''alice'', record_of 35 ''bob''] ''nike'' []) = Some (KNum (Fin 50))
   \<and> kpi_of ''tauxDeRotation'' (calculate_kpis [] ''nike'' []) = Some (KNum (Fin 0))"
proof -
  have h: "list_all hashable (map seller_login [record_of 10 ''alice'', record_of 35 ''bob''])"
    by (simp add: record_of_def)
  have h0: "list_all hashable (map seller_login [])" by simp
  from h obtain ks where
    ks: "calculate_kpis [record_of 10 ''alice'', record_of 35 ''bob''] ''nike'' [] = Inr ks"
    using turnover_rate_is_fifty [of "[record_of 10 ''alice'', record_of 35 ''bob'']" "''nike''" "[]"]
    by blast
  from h0 obtain ks0 where ks0: "calculate_kpis [] ''nike'' [] = Inr ks0"
    using turnover_rate_is_fifty [of "[]" "''nike''" "[]"] by blast
  show ?thesis
    using h ks ks0
      turnover_rate_is_fifty [of "[record_of 10 ''alice'', record_of 35 ''bob'']" "''nike''" "[]" ks]
      turnover_rate_is_fifty [of "[]" "''nike''" "[]" ks0]
    by (simp add: kpi_of_def)
qed

lemma value_counts_returns: "list_all hashable xs \<Longrightarrow> \<exists>d. value_counts xs = Inr d"
  by (simp add: value_counts_def)

lemma calculate_kpis_returns:
  "list_all hashable (map seller_login df) \<Longrightarrow> \<exists>ks. calculate_kpis df key rows = Inr ks"
  by (auto simp: calculate_kpis_def Let_def dest: nunique_returns)

text \<open>What a returned aggregation consists of.\<close>

lemma aggregate_Inr:
  assumes "aggregate df key now save_time rows = Inr (a, rows')"
  shows "analysisTimestamp a = now"
    and "priceAnalysis a =
           \<lparr>minimum = series_min (map price df), maximum = series_max (map price df),
            average = fround2 (series_mean (map price df)),
            median = series_median (map price df)\<rparr>"
    and "\<exists>sellers. nunique (map seller_login df) = Inr sellers
           \<and> summary a = \<lparr>itemsFound = length df, sellersCount = sellers\<rparr>"
    and "value_counts (map brand df) = Inr (brandDistribution a)"
    and "value_counts (map condition df) = Inr (conditionDistribution a)"
    and "calculate_kpis df key rows = Inr (kpis a)"
    and "rows' = save_analysis key a save_time rows"
  using assms
  by (auto simp: aggregate_def Let_def split: sum.splits)

lemma aggregate_returns:
  assumes "list_all hashable (map seller_login df)"
    and "list_all hashable (map brand df)"
    and "list_all hashable (map condition df)"
  shows "\<exists>a. aggregate df key now save_time rows = Inr (a, save_analysis key a save_time rows)"
proof -
  obtain n where "nunique (map seller_login df) = Inr n"
    using assms(1) nunique_returns by blast
  moreover obtain ks where "calculate_kpis df key rows = Inr ks"
    using assms(1) calculate_kpis_returns by blast
  moreover obtain b where "value_counts (map brand df) = Inr b"
    using assms(2) value_counts_returns by blast
  moreover obtain c where "value_counts (map condition df) = Inr c"
    using assms(3) value_counts_returns by blast
  ultimately show ?thesis
    by (simp add: aggregate_def Let_def)
qed


lemma calculate_kpis_recommended:
  assumes "calculate_kpis df key rows = Inr ks"
  shows "map_of ks ''prixOptimalRecommande'' =
           Some (KNum (if fgt (if df \<noteq> [] then series_mean (map price df) else Fin 0) (Fin 0)
                       then fround2 (fmul (if df \<noteq> [] then series_mean (map price df) else Fin 0)
                                          (Fin (95 / 100)))
                       else Fin 0))"
  using assms by (auto simp: calculate_kpis_def Let_def split: sum.splits)

lemma calculate_kpis_trend:
  assumes "calculate_kpis df key rows = Inr ks"
  shows "map_of ks ''tendancePrix30Jours'' =
           Some (KNum (if 2 \<le> length (history_prices key rows)
                          \<and> fgt (last (history_prices key rows)) (Fin 0)
                       then fround2 (fmul (fdiv (fsub (if df \<noteq> [] then series_mean (map price df) else Fin 0)
                                                      (last (history_prices key rows)))
                                                (last (history_prices key rows)))
                                          (Fin 100))
                       else Fin 0))"
  using assms by (auto simp: calculate_kpis_def history_prices_def Let_def split: sum.splits)

lemma fgt_Fin [simp]: "fgt (Fin a) (Fin b) \<longleftrightarrow> b < a"
  by (auto simp: fgt_def flt_def)

lemma fround2_mul_examples:
  "fround2 (fmul (Fin 100) (Fin (95 / 100))) = Fin 95"
  "fround2 (fmul (Fin (17 / 150)) (Fin (95 / 100))) = Fin (11 / 100)"
  "fround2 (Fin (17 / 150)) = Fin (11 / 100)"
  "fround2 (fmul (Fin (11 / 100)) (Fin (95 / 100))) = Fin (1 / 10)"
  "fgt (Fin 100) (Fin 0)"
  "fgt (Fin (17 / 150)) (Fin 0)"
  by code_simp+

text \<open>
  Claim C4, amended.  For a non-empty batch the recommended price is the mean of the
  prices, not rounded, times 0.95 and then rounded to two decimals, when that mean is
  greater than 0, and 0 otherwise; for a mean of 100 it is 95.
\<close>

theorem recommended_price_from_unrounded_mean:
  "(calculate_kpis df key rows = Inr ks \<and> df \<noteq> [] \<longrightarrow>
      map_of ks ''prixOptimalRecommande'' =
        Some (KNum (if fgt (series_mean (map price df)) (Fin 0)
                    then fround2 (fmul (series_mean (map price df)) (Fin (95 / 100)))
                    else Fin 0)))
   \<and> (calculate_kpis df key rows = Inr ks \<and> df \<noteq> [] \<and> series_mean (map price df) = Fin 100 \<longrightarrow>
        map_of ks ''prixOptimalRecommande'' = Some (KNum (Fin 95)))"
proof
  show "calculate_kpis df key rows = Inr ks \<and> df \<noteq> [] \<longrightarrow>
      map_of ks ''prixOptimalRecommande'' =
        Some (KNum (if fgt (series_mean (map price df)) (Fin 0)
                    then fround2 (fmul (series_mean (map price df)) (Fin (95 / 100)))
                    else Fin 0))"
    using calculate_kpis_recommended [of df key rows ks] by simp
next
  show "calculate_kpis df key rows = Inr ks \<and> df \<noteq> [] \<and> series_mean (map price df) = Fin 100 \<longrightarrow>
        map_of ks ''prixOptimalRecommande'' = Some (KNum (Fin 95))"
    using calculate_kpis_recommended [of df key rows ks]
    by (simp add: fgt_Fin round_half_even_numeral)
qed

lemma mean_examples:
  "series_mean (map price [record_of 100 ''alice'']) = Fin 100"
  "series_mean (map price [record_of 30 ''alice'']) = Fin 30"
  "series_mean (map price [record_of 20 ''alice'']) = Fin 20"
  "series_mean (map price [record_of (11 / 100) ''alice'', record_of (11 / 100) ''bob'',
                           record_of (12 / 100) ''carol'']) = Fin (17 / 150)"
  by code_simp+

theorem recommended_price_from_unrounded_mean_witness:
  "[record_of 100 ''alice''] \<noteq> []
   \<and> series_mean (map price [record_of 100 ''alice'']) = Fin 100
   \<and> kpi_of ''prixOptimalRecommande'' (calculate_kpis [record_of 100 ''alice''] ''nike'' []) =
       Some (KNum (Fin 95))"
proof -
  have "list_all hashable (map seller_login [record_of 100 ''alice''])"
    by (simp add: record_of_def)
  then obtain ks where ks: "calculate_kpis [record_of 100 ''alice''] ''nike'' [] = Inr ks"
    using calculate_kpis_returns by blast
  show ?thesis
    using recommended_price_from_unrounded_mean [of "[record_of 100 ''alice'']" "''nike''" "[]" ks]
      ks mean_examples(1)
    by (simp add: kpi_of_def fgt_Fin)
qed


lemma analyze_serving_records:
  assumes "normalize_items items = Inr records" and "records \<noteq> []"
  shows "analyze_market_by_product_name (serving items) key token now save_time rows =
           aggregate records key now save_time rows"
proof -
  from assms have "items \<noteq> []" by auto
  then show ?thesis using assms by (simp add: analyze_serving)
qed

lemma normalize_three_items:
  "normalize_items [raw_item (JStr ''0.11'') ''nike'' ''alice'', raw_item (JStr ''0.11'') ''nike'' ''bob'',
                    raw_item (JStr ''0.12'') ''nike'' ''carol''] =
     Inr [record_of (11 / 100) ''alice'', record_of (11 / 100) ''bob'', record_of (12 / 100) ''carol'']"
  by code_simp

text \<open>
  Claim C4, as stated, fails.  For the prices 0.11, 0.11 and 0.12 the average of the
  price analysis is 0.11, whose 95 percent round to 0.10, but the recommended price
  returned is 0.11: it is computed from the mean 0.11333... before rounding.
\<close>

theorem recommended_price_differs_from_rounded_average:
  "map_option (average \<circ> priceAnalysis)
     (returned (analyze_market_by_product_name
        (serving [raw_item (JStr ''0.11'') ''nike'' ''alice'', raw_item (JStr ''0.11'') ''nike'' ''bob'',
                  raw_item (JStr ''0.12'') ''nike'' ''carol''])
        ''nike'' ''token'' 5 6 [])) = Some (Fin (11 / 100))
   \<and> map_option (kpi ''prixOptimalRecommande'')
     (returned (analyze_market_by_product_name
        (serving [raw_item (JStr ''0.11'') ''nike'' ''alice'', raw_item (JStr ''0.11'') ''nike'' ''bob'',
                  raw_item (JStr ''0.12'') ''nike'' ''carol''])
        ''nike'' ''token'' 5 6 [])) = Some (Some (KNum (Fin (11 / 100))))
   \<and> fround2 (fmul (Fin (11 / 100)) (Fin (95 / 100))) = Fin (1 / 10)"
proof -
  let ?df = "[record_of (11 / 100) ''alice'', record_of (11 / 100) ''bob'', record_of (12 / 100) ''carol'']"
  have ne: "?df \<noteq> []" by simp
  have run: "analyze_market_by_product_name
        (serving [raw_item (JStr ''0.11'') ''nike'' ''alice'', raw_item (JStr ''0.11'') ''nike'' ''bob'',
                  raw_item (JStr ''0.12'') ''nike'' ''carol''])
        ''nike'' ''token'' 5 6 [] = aggregate ?df ''nike'' 5 6 []"
    using normalize_three_items ne by (rule analyze_serving_records)
  have "list_all hashable (map seller_login ?df)" "list_all hashable (map brand ?df)"
    "list_all hashable (map condition ?df)"
    by (simp_all add: record_of_def)
  then obtain a where a: "aggregate ?df ''nike'' 5 6 [] = Inr (a, save_analysis ''nike'' a 6 [])"
    using aggregate_returns by blast
  have "average (priceAnalysis a) = fround2 (series_mean (map price ?df))"
    using aggregate_Inr(2) [OF a] by simp
  then have avg: "average (priceAnalysis a) = Fin (11 / 100)"
    by (simp only: mean_examples fround2_mul_examples)
  have "map_of (kpis a) ''prixOptimalRecommande'' =
           Some (KNum (if fgt (if ?df \<noteq> [] then series_mean (map price ?df) else Fin 0) (Fin 0)
                       then fround2 (fmul (if ?df \<noteq> [] then series_mean (map price ?df) else Fin 0)
                                          (Fin (95 / 100)))
                       else Fin 0))"
    using aggregate_Inr(6) [OF a] by (rule calculate_kpis_recommended)
  then have prix: "map_of (kpis a) ''prixOptimalRecommande'' = Some (KNum (Fin (11 / 100)))"
    by (simp only: ne mean_examples fround2_mul_examples if_True simp_thms)
  show ?thesis
    by (simp only: run a returned_def kpi_def sum.case fst_conv option.map comp_apply avg prix
        fround2_mul_examples simp_thms)
qed

text \<open>
  Claim C2, amended.  The trend is 0 unless the history of the key (at most 30 snapshots,
  newest first, read before the current run is saved) has at least two average prices and
  the last of them, the oldest, is greater than 0; then it is the difference between the
  mean of the current batch, not rounded, and that oldest average, divided by the oldest
  average, times 100, rounded to two decimals.
\<close>

theorem price_trend_kpi:
  "(calculate_kpis df key rows = Inr ks \<longrightarrow>
      map_of ks ''tendancePrix30Jours'' =
        Some (KNum (if 2 \<le> length (history_prices key rows)
                       \<and> fgt (last (history_prices key rows)) (Fin 0)
                    then fround2
                           (fmul (fdiv (fsub (if df \<noteq> [] then series_mean (map price df) else Fin 0)
                                             (last (history_prices key rows)))
                                       (last (history_prices key rows)))
                                 (Fin 100))
                    else Fin 0)))
   \<and> (calculate_kpis df key rows = Inr ks \<and> df \<noteq> [] \<and> series_mean (map price df) = Fin current
        \<and> 2 \<le> length (history_prices key rows) \<and> last (history_prices key rows) = Fin oldest
        \<and> 0 < oldest \<longrightarrow>
        map_of ks ''tendancePrix30Jours'' =
          Some (KNum (Fin (real_of_int (round_half_even ((current - oldest) / oldest * 100 * 100)) / 100))))"
proof
  show "calculate_kpis df key rows = Inr ks \<longrightarrow>
      map_of ks ''tendancePrix30Jours'' =
        Some (KNum (if 2 \<le> length (history_prices key rows)
                       \<and> fgt (last (history_prices key rows)) (Fin 0)
                    then fround2
                           (fmul (fdiv (fsub (if df \<noteq> [] then series_mean (map price df) else Fin 0)
                                             (last (history_prices key rows)))
                                       (last (history_prices key rows)))
                                 (Fin 100))
                    else Fin 0))"
    using calculate_kpis_trend by blast
next
  show "calculate_kpis df key rows = Inr ks \<and> df \<noteq> [] \<and> series_mean (map price df) = Fin current
        \<and> 2 \<le> length (history_prices key rows) \<and> last (history_prices key rows) = Fin oldest
        \<and> 0 < oldest \<longrightarrow>
        map_of ks ''tendancePrix30Jours'' =
          Some (KNum (Fin (real_of_int (round_half_even ((current - oldest) / oldest * 100 * 100)) / 100)))"
    using calculate_kpis_trend [of df key rows ks]
    by (simp add: fsub_def)
qed

lemma history_examples:
  "history_prices ''nike'' [snapshot ''nike'' 1 10, snapshot ''nike'' 2 20] = [Fin 20, Fin 10]"
  "history_prices ''nike'' [snapshot ''nike'' 1 (- 10), snapshot ''nike'' 2 20] = [Fin 20, Fin (- 10)]"
  "history_prices ''nike'' [snapshot ''nike'' 1 10] = [Fin 10]"
  "history_prices ''nike'' [] = []"
  by code_simp+

lemma one_record_kpis: "\<exists>ks. calculate_kpis [record_of p login] key rows = Inr ks"
  by (rule calculate_kpis_returns) (simp add: record_of_def)

theorem price_trend_kpi_witness:
  "kpi_of ''tendancePrix30Jours''
     (calculate_kpis [record_of 20 ''alice''] ''nike'' [snapshot ''nike'' 1 10, snapshot ''nike'' 2 20]) =
     Some (KNum (Fin 100))
   \<and> kpi_of ''tendancePrix30Jours''
     (calculate_kpis [record_of 20 ''alice''] ''nike'' [snapshot ''nike'' 1 10]) = Some (KNum (Fin 0))"
proof -
  obtain ks where ks: "calculate_kpis [record_of 20 ''alice''] ''nike''
      [snapshot ''nike'' 1 10, snapshot ''nike'' 2 20] = Inr ks"
    using one_record_kpis by blast
  obtain ks1 where ks1: "calculate_kpis [record_of 20 ''alice''] ''nike'' [snapshot ''nike'' 1 10] = Inr ks1"
    using one_record_kpis by blast
  have "map_of ks ''tendancePrix30Jours'' = Some (KNum (Fin 100))"
    using price_trend_kpi [of "[record_of 20 ''alice'']" "''nike''"
        "[snapshot ''nike'' 1 10, snapshot ''nike'' 2 20]" ks 20 10]
      ks mean_examples(3) history_examples(1)
    by (simp add: fsub_def)
  moreover have "map_of ks1 ''tendancePrix30Jours'' = Some (KNum (Fin 0))"
    using price_trend_kpi [of "[record_of 20 ''alice'']" "''nike''" "[snapshot ''nike'' 1 10]" ks1]
      ks1 history_examples(3)
    by simp
  ultimately show ?thesis
    using ks ks1 by (simp add: kpi_of_def)
qed

text \<open>
  Claim C2, as stated, fails.  With the two snapshots of averages 20 (newest) and 10
  (oldest) in the history, a current batch of mean 30 has the trend 200, not 100: the
  newest snapshot plays no part.  And with an oldest average of -10 the trend is 0, where
  the formula of the claim gives -300.
\<close>

theorem trend_depends_on_current_batch:
  "history_prices ''nike'' [snapshot ''nike'' 1 10, snapshot ''nike'' 2 20] = [Fin 20, Fin 10]
   \<and> kpi_of ''tendancePrix30Jours''
       (calculate_kpis [record_of 30 ''alice''] ''nike'' [snapshot ''nike'' 1 10, snapshot ''nike'' 2 20]) =
       Some (KNum (Fin 200))
   \<and> history_prices ''nike'' [snapshot ''nike'' 1 (- 10), snapshot ''nike'' 2 20] = [Fin 20, Fin (- 10)]
   \<and> kpi_of ''tendancePrix30Jours''
       (calculate_kpis [record_of 20 ''alice''] ''nike''
          [snapshot ''nike'' 1 (- 10), snapshot ''nike'' 2 20]) = Some (KNum (Fin 0))
   \<and> fround2 (fmul (fdiv (fsub (Fin 20) (Fin (- 10))) (Fin (- 10))) (Fin 100)) = Fin (- 300)"
proof -
  obtain ks where ks: "calculate_kpis [record_of 30 ''alice''] ''nike''
      [snapshot ''nike'' 1 10, snapshot ''nike'' 2 20] = Inr ks"
    using one_record_kpis by blast
  obtain ks' where ks': "calculate_kpis [record_of 20 ''alice''] ''nike''
      [snapshot ''nike'' 1 (- 10), snapshot ''nike'' 2 20] = Inr ks'"
    using one_record_kpis by blast
  have a: "map_of ks ''tendancePrix30Jours'' = Some (KNum (Fin 200))"
    using calculate_kpis_trend [OF ks] mean_examples(2) history_examples(1)
    by (simp add: fsub_def)
  have b: "map_of ks' ''tendancePrix30Jours'' = Some (KNum (Fin 0))"
    using calculate_kpis_trend [OF ks'] mean_examples(3) history_examples(2)
    by simp
  have c: "fround2 (fmul (fdiv (fsub (Fin 20) (Fin (- 10))) (Fin (- 10))) (Fin 100)) = Fin (- 300)"
    by code_simp
  show ?thesis
    using a b c ks ks' history_examples(1,2) by (simp add: kpi_of_def)
qed

section \<open>The price analysis\<close>

lemma dropna_Fin: "dropna (map Fin rs) = map Fin rs"
  by (induction rs) (simp_all add: dropna_def)

lemma foldl_fmin_Fin:
  "\<exists>m. foldl fmin (Fin r) (map Fin rs) = Fin m \<and> m \<le> r \<and> (\<forall>x \<in> set rs. m \<le> x)"
proof (induction rs arbitrary: r)
  case Nil
  then show ?case by simp
next
  case (Cons x rs)
  have "fmin (Fin r) (Fin x) = Fin (min r x)" by (simp add: fmin_def min_def)
  moreover obtain m where "foldl fmin (Fin (min r x)) (map Fin rs) = Fin m" "m \<le> min r x"
    "\<forall>y \<in> set rs. m \<le> y"
    using Cons.IH by blast
  ultimately show ?case by auto
qed

lemma foldl_fmax_Fin:
  "\<exists>m. foldl fmax (Fin r) (map Fin rs) = Fin m \<and> r \<le> m \<and> (\<forall>x \<in> set rs. x \<le> m)"
proof (induction rs arbitrary: r)
  case Nil
  then show ?case by simp
next
  case (Cons x rs)
  have "fmax (Fin r) (Fin x) = Fin (max r x)" by (simp add: fmax_def max_def)
  moreover obtain m where "foldl fmax (Fin (max r x)) (map Fin rs) = Fin m" "max r x \<le> m"
    "\<forall>y \<in> set rs. y \<le> m"
    using Cons.IH by blast
  ultimately show ?case by auto
qed

lemma series_min_Fin:
  assumes "rs \<noteq> []"
  shows "\<exists>m. series_min (map Fin rs) = Fin m \<and> (\<forall>x \<in> set rs. m \<le> x)"
proof -
  from assms obtain r rs' where rs: "rs = r # rs'" by (cases rs) auto
  obtain m where "foldl fmin (Fin r) (map Fin rs') = Fin m" "m \<le> r" "\<forall>x \<in> set rs'. m \<le> x"
    using foldl_fmin_Fin by blast
  then show ?thesis
    unfolding series_min_def dropna_Fin rs by auto
qed

lemma series_max_Fin:
  assumes "rs \<noteq> []"
  shows "\<exists>m. series_max (map Fin rs) = Fin m \<and> (\<forall>x \<in> set rs. x \<le> m)"
proof -
  from assms obtain r rs' where rs: "rs = r # rs'" by (cases rs) auto
  obtain m where "foldl fmax (Fin r) (map Fin rs') = Fin m" "r \<le> m" "\<forall>x \<in> set rs'. x \<le> m"
    using foldl_fmax_Fin by blast
  then show ?thesis
    unfolding series_max_def dropna_Fin rs by auto
qed

lemma set_insort_float: "set (insort_float x ys) = insert x (set ys)"
  by (induction ys) auto

lemma length_insort_float: "length (insort_float x ys) = Suc (length ys)"
  by (induction ys) auto

lemma set_sort_floats: "set (sort_floats xs) = set xs"
  by (induction xs) (simp_all add: sort_floats_def set_insort_float)

lemma length_sort_floats: "length (sort_floats xs) = length xs"
  by (induction xs) (simp_all add: sort_floats_def length_insort_float)

lemma to_double_in_range: "\<bar>r\<bar> < float_overflow \<Longrightarrow> to_double r = Fin r"
  by (auto simp: to_double_def)

lemma add_double_bounded:
  assumes "\<bar>x\<bar> < float_overflow / 2" and "\<bar>y\<bar> < float_overflow / 2"
  shows "add_double (Fin x) (Fin y) = Fin (x + y)"
proof -
  from assms have "\<bar>x + y\<bar> < float_overflow" by linarith
  then show ?thesis by (simp add: add_double_def to_double_in_range)
qed

lemma series_median_Fin:
  assumes "rs \<noteq> []" and bounds: "\<forall>x \<in> set rs. lo \<le> x \<and> x \<le> hi"
    and small: "\<forall>x \<in> set rs. \<bar>x\<bar> < float_overflow / 2"
  shows "\<exists>d. series_median (map Fin rs) = Fin d \<and> lo \<le> d \<and> d \<le> hi"
proof -
  let ?ys = "sort_floats (map Fin rs)"
  let ?n = "length ?ys"
  have n: "?n = length rs" by (simp add: length_sort_floats)
  with assms(1) have pos: "0 < ?n" by simp
  have elem: "\<exists>x. ?ys ! i = Fin x \<and> lo \<le> x \<and> x \<le> hi \<and> \<bar>x\<bar> < float_overflow / 2"
    if "i < ?n" for i
  proof -
    from that have "?ys ! i \<in> set ?ys" by (rule nth_mem)
    then have "?ys ! i \<in> Fin ` set rs" by (simp add: set_sort_floats)
    with bounds small show ?thesis by auto
  qed
  show ?thesis
  proof (cases "odd ?n")
    case True
    from pos have "?n div 2 < ?n" by simp
    then obtain x where "?ys ! (?n div 2) = Fin x" "lo \<le> x" "x \<le> hi" using elem by blast
    with True pos show ?thesis
      by (simp add: series_median_def dropna_Fin Let_def)
  next
    case False
    from pos have half: "?n div 2 < ?n" by simp
    then have "?n div 2 - 1 < ?n" by arith
    with half have "?n div 2 - 1 < ?n" "?n div 2 < ?n" by blast+
    then obtain x y where x: "?ys ! (?n div 2 - 1) = Fin x" "lo \<le> x" "x \<le> hi"
        "\<bar>x\<bar> < float_overflow / 2"
      and y: "?ys ! (?n div 2) = Fin y" "lo \<le> y" "y \<le> hi" "\<bar>y\<bar> < float_overflow / 2"
      using elem by blast
    have "add_double (Fin x) (Fin y) = Fin (x + y)"
      using x(4) y(4) by (rule add_double_bounded)
    then have "series_median (map Fin rs) = Fin ((x + y) / 2)"
      using False pos x(1) y(1) by (simp add: series_median_def dropna_Fin Let_def)
    moreover have "lo \<le> (x + y) / 2" "(x + y) / 2 \<le> hi"
      using x y by simp_all
    ultimately show ?thesis by blast
  qed
qed

lemma price_order_finite:
  assumes "rs \<noteq> []" and "\<forall>x \<in> set rs. \<bar>x\<bar> < float_overflow / 2"
  shows "fle (series_min (map Fin rs)) (series_median (map Fin rs))
         \<and> fle (series_median (map Fin rs)) (series_max (map Fin rs))"
proof -
  obtain lo where lo: "series_min (map Fin rs) = Fin lo" "\<forall>x \<in> set rs. lo \<le> x"
    using series_min_Fin [OF assms(1)] by blast
  obtain hi where hi: "series_max (map Fin rs) = Fin hi" "\<forall>x \<in> set rs. x \<le> hi"
    using series_max_Fin [OF assms(1)] by blast
  from lo(2) hi(2) have "\<forall>x \<in> set rs. lo \<le> x \<and> x \<le> hi" by blast
  then obtain d where "series_median (map Fin rs) = Fin d" "lo \<le> d" "d \<le> hi"
    using series_median_Fin [OF assms(1) _ assms(2)] by blast
  with lo(1) hi(1) show ?thesis by simp
qed

lemma bounded_values:
  "\<forall>x \<in> set xs. \<exists>p. x = Fin p \<and> \<bar>p\<bar> < float_overflow / 2 \<Longrightarrow>
     \<exists>rs. xs = map Fin rs \<and> (\<forall>p \<in> set rs. \<bar>p\<bar> < float_overflow / 2)"
proof (induction xs)
  case Nil
  then show ?case by simp
next
  case (Cons x xs)
  then obtain rs where rs: "xs = map Fin rs" "\<forall>p \<in> set rs. \<bar>p\<bar> < float_overflow / 2" by auto
  from Cons.prems obtain r where r: "x = Fin r" "\<bar>r\<bar> < float_overflow / 2" by auto
  from rs r have "x # xs = map Fin (r # rs) \<and> (\<forall>p \<in> set (r # rs). \<bar>p\<bar> < float_overflow / 2)"
    by simp
  then show ?case by (rule exI)
qed

lemma iterate_falsy: "iterate data = Inr items \<Longrightarrow> \<not> truthy data \<Longrightarrow> items = []"
  by (cases data) auto

lemma analyze_batch:
  assumes "vinted (normalized_search_text key) access_token = Body (JDict members)"
    and "iterate (dict_get members ''items'' (JList [])) = Inr items"
    and "normalize_items items = Inr records"
  shows "analyze_market_by_product_name vinted key access_token now save_time rows =
           (if records = []
            then Inr (empty_analysis now, save_analysis key (empty_analysis now) save_time rows)
            else aggregate records key now save_time rows)"
proof (cases "truthy (dict_get members ''items'' (JList []))")
  case True
  with assms show ?thesis
    by (simp add: analyze_market_by_product_name_def Let_def empty_literals_agree)
next
  case False
  with assms(2) have "items = []" by (rule iterate_falsy)
  with assms(3) have "records = []" by simp
  with False assms(1) show ?thesis
    by (simp add: analyze_market_by_product_name_def Let_def)
qed

lemma normalize_nan_item:
  "normalize_items [raw_item (JStr ''nan'') ''nike'' ''alice''] =
     Inr [\<lparr>price = NaN, brand = JStr ''nike'', condition = JStr ''Bon'', seller_login = JStr ''alice''\<rparr>]"
  by code_simp

lemma nan_series:
  "series_min [NaN] = NaN" "series_max [NaN] = NaN" "series_median [NaN] = NaN"
  "fround2 (series_mean [NaN]) = NaN"
  by code_simp+

text \<open>
  Claim C3, as stated, fails.  A batch of one item whose amount is \<^verbatim>\<open>"nan"\<close> is not empty,
  and its price analysis has NaN in all four fields, so neither comparison holds.
\<close>

theorem nan_price_breaks_price_order:
  "map_option priceAnalysis
     (returned (analyze_market_by_product_name (serving [raw_item (JStr ''nan'') ''nike'' ''alice''])
        ''nike'' ''token'' 5 6 [])) =
     Some \<lparr>minimum = NaN, maximum = NaN, average = NaN, median = NaN\<rparr>
   \<and> \<not> fle NaN NaN"
proof -
  let ?df = "[\<lparr>price = NaN, brand = JStr ''nike'', condition = JStr ''Bon'', seller_login = JStr ''alice''\<rparr>]"
  have ne: "?df \<noteq> []" by simp
  have run: "analyze_market_by_product_name (serving [raw_item (JStr ''nan'') ''nike'' ''alice''])
        ''nike'' ''token'' 5 6 [] = aggregate ?df ''nike'' 5 6 []"
    using normalize_nan_item ne by (rule analyze_serving_records)
  have "list_all hashable (map seller_login ?df)" "list_all hashable (map brand ?df)"
    "list_all hashable (map condition ?df)"
    by simp_all
  then obtain a where a: "aggregate ?df ''nike'' 5 6 [] = Inr (a, save_analysis ''nike'' a 6 [])"
    using aggregate_returns by blast
  have "priceAnalysis a = \<lparr>minimum = NaN, maximum = NaN, average = NaN, median = NaN\<rparr>"
    using aggregate_Inr(2) [OF a] by (simp add: nan_series)
  then show ?thesis
    by (simp add: run a returned_def)
qed


text \<open>
  Two finite prices whose sum leaves the range of a double, here twice \<open>2^1023\<close>: the
  median is an infinity, above the maximum.
\<close>

lemma sum_overflows: "add_double (Fin (2 ^ 1023)) (Fin (2 ^ 1023)) = PInf"
  by (simp add: add_double_def to_double_def float_overflow_def)

lemma large_prices_overflow_median:
  "series_median [Fin (2 ^ 1023), Fin (2 ^ 1023)] = PInf"
  "series_max [Fin (2 ^ 1023), Fin (2 ^ 1023)] = Fin (2 ^ 1023)"
  "\<not> fle PInf (Fin (2 ^ 1023))"
  using sum_overflows
  by (simp_all add: series_median_def series_max_def dropna_def sort_floats_def fmax_def Let_def
      signed_inf_def)

text \<open>
  Claim C3, amended.  When a run returns an analysis of a batch of normalized records
  that is not empty and whose prices are all finite and smaller in magnitude than half
  the overflow bound of a double, so that the sum of two of them is a finite double, the
  minimum is at most the median and the median at most the maximum; when the batch is
  empty the four fields are zero.
\<close>

theorem price_order_for_bounded_prices:
  assumes "analyze_market_by_product_name vinted key access_token now save_time rows = Inr (a, rows')"
    and "vinted (normalized_search_text key) access_token = Body (JDict members)"
    and "iterate (dict_get members ''items'' (JList [])) = Inr items"
    and "normalize_items items = Inr records"
  shows "(records \<noteq> []
          \<and> (\<forall>r \<in> set records. \<exists>p. price r = Fin p \<and> \<bar>p\<bar> < float_overflow / 2) \<longrightarrow>
            fle (minimum (priceAnalysis a)) (median (priceAnalysis a))
            \<and> fle (median (priceAnalysis a)) (maximum (priceAnalysis a)))
         \<and> (records = [] \<longrightarrow>
              priceAnalysis a = \<lparr>minimum = Fin 0, maximum = Fin 0, average = Fin 0, median = Fin 0\<rparr>)"
proof -
  have run: "(if records = []
            then Inr (empty_analysis now, save_analysis key (empty_analysis now) save_time rows)
            else aggregate records key now save_time rows) = Inr (a, rows')"
    using analyze_batch [where vinted = vinted and key = key and access_token = access_token
        and now = now and save_time = save_time and rows = rows, OF assms(2,3,4)] assms(1)
    by simp
  have empty: "priceAnalysis a = \<lparr>minimum = Fin 0, maximum = Fin 0, average = Fin 0, median = Fin 0\<rparr>"
    if "records = []"
    using run that by (auto simp: empty_analysis_def)
  have order: "fle (minimum (priceAnalysis a)) (median (priceAnalysis a))
            \<and> fle (median (priceAnalysis a)) (maximum (priceAnalysis a))"
    if ne: "records \<noteq> []"
      and small: "\<forall>r \<in> set records. \<exists>p. price r = Fin p \<and> \<bar>p\<bar> < float_overflow / 2"
  proof -
    from run ne have agg: "aggregate records key now save_time rows = Inr (a, rows')" by simp
    from small have "\<forall>x \<in> set (map price records). \<exists>p. x = Fin p \<and> \<bar>p\<bar> < float_overflow / 2"
      by simp
    then obtain rs where rs: "map price records = map Fin rs"
      and b: "\<forall>p \<in> set rs. \<bar>p\<bar> < float_overflow / 2"
      using bounded_values by blast
    with ne have "rs \<noteq> []" by auto
    then show ?thesis
      using price_order_finite [of rs] b aggregate_Inr(2) [OF agg] rs by simp
  qed
  from empty order show ?thesis by blast
qed

lemma normalize_four_items:
  "normalize_items [raw_item (JStr ''10'') ''nike'' ''alice'', raw_item (JStr ''20'') ''nike'' ''bob'',
                    raw_item (JStr ''30'') ''puma'' ''alice'', raw_item (JStr ''40'') ''puma'' ''carol''] =
     Inr [record_of 10 ''alice'', record_of 20 ''bob'',
          \<lparr>price = Fin 30, brand = JStr ''puma'', condition = JStr ''Bon'', seller_login = JStr ''alice''\<rparr>,
          \<lparr>price = Fin 40, brand = JStr ''puma'', condition = JStr ''Bon'', seller_login = JStr ''carol''\<rparr>]"
  by code_simp

lemma four_prices:
  "series_min [Fin 10, Fin 20, Fin 30, Fin 40] = Fin 10"
  "series_max [Fin 10, Fin 20, Fin 30, Fin 40] = Fin 40"
  "fround2 (series_mean [Fin 10, Fin 20, Fin 30, Fin 40]) = Fin 25"
  "series_median [Fin 10, Fin 20, Fin 30, Fin 40] = Fin 25"
  by code_simp+

lemma small_prices: "(40::real) < float_overflow / 2"
  by (simp add: float_overflow_def)

theorem price_order_for_bounded_prices_witness:
  "map_option priceAnalysis
     (returned (analyze_market_by_product_name
        (serving [raw_item (JStr ''10'') ''nike'' ''alice'', raw_item (JStr ''20'') ''nike'' ''bob'',
                  raw_item (JStr ''30'') ''puma'' ''alice'', raw_item (JStr ''40'') ''puma'' ''carol''])
        ''nike'' ''token'' 5 6 [])) =
     Some \<lparr>minimum = Fin 10, maximum = Fin 40, average = Fin 25, median = Fin 25\<rparr>
   \<and> fle (Fin 10) (Fin 25) \<and> fle (Fin 25) (Fin 40)"
proof -
  let ?items = "[raw_item (JStr ''10'') ''nike'' ''alice'', raw_item (JStr ''20'') ''nike'' ''bob'',
                 raw_item (JStr ''30'') ''puma'' ''alice'', raw_item (JStr ''40'') ''puma'' ''carol'']"
  let ?df = "[record_of 10 ''alice'', record_of 20 ''bob'',
          \<lparr>price = Fin 30, brand = JStr ''puma'', condition = JStr ''Bon'', seller_login = JStr ''alice''\<rparr>,
          \<lparr>price = Fin 40, brand = JStr ''puma'', condition = JStr ''Bon'', seller_login = JStr ''carol''\<rparr>]"
  have ne: "?df \<noteq> []" by simp
  have small: "\<forall>r \<in> set ?df. \<exists>p. price r = Fin p \<and> \<bar>p\<bar> < float_overflow / 2"
    using small_prices by (simp add: record_of_def)
  have reply: "serving ?items (normalized_search_text ''nike'') ''token'' =
                 Body (JDict [(''items'', JList ?items)])"
    by (simp add: serving_def)
  have iter: "iterate (dict_get [(''items'', JList ?items)] ''items'' (JList [])) = Inr ?items"
    by (simp add: dict_get_def)
  have run: "analyze_market_by_product_name (serving ?items) ''nike'' ''token'' 5 6 [] =
               aggregate ?df ''nike'' 5 6 []"
    using normalize_four_items ne by (rule analyze_serving_records)
  have "list_all hashable (map seller_login ?df)" "list_all hashable (map brand ?df)"
    "list_all hashable (map condition ?df)"
    by (simp_all add: record_of_def)
  then obtain a where a: "aggregate ?df ''nike'' 5 6 [] = Inr (a, save_analysis ''nike'' a 6 [])"
    using aggregate_returns by blast
  have pa: "priceAnalysis a = \<lparr>minimum = Fin 10, maximum = Fin 40, average = Fin 25, median = Fin 25\<rparr>"
    using aggregate_Inr(2) [OF a] by (simp add: record_of_def four_prices)
  have "fle (minimum (priceAnalysis a)) (median (priceAnalysis a))
        \<and> fle (median (priceAnalysis a)) (maximum (priceAnalysis a))"
    using price_order_for_bounded_prices
      [where vinted = "serving ?items" and key = "''nike''" and access_token = "''token''"
         and now = 5 and save_time = 6 and rows = "[]" and a = a
         and rows' = "save_analysis ''nike'' a 6 []" and records = ?df,
       OF _ reply iter normalize_four_items]
      run a ne small
    by simp
  then show ?thesis
    using pa by (simp add: run a returned_def)
qed

end
